theory Spec2Isabelle
  imports Main "HOL-Library.AList"
begin

section \<open>TableUtils: the data model\<close>

text \<open>
  A shallow embedding of \<^verbatim>\<open>sap/ui/table/TableUtils.js\<close>. The table, its columns, its
  rendered rows and the DOM are external collaborators of that file: the table is a
  record of what the accessors used by TableUtils return, and every mutator called on it
  returns the updated record. A \<^verbatim>\<open>null\<close> or \<^verbatim>\<open>undefined\<close> argument is \<open>None\<close>; an
  uncaught JavaScript \<^verbatim>\<open>TypeError\<close> is the left injection of a sum.
\<close>

datatype exn = TypeError

text \<open>The result of \<^verbatim>\<open>parseInt(s, 10)\<close> on a DOM attribute: a number or \<^verbatim>\<open>NaN\<close>.\<close>

datatype js_num = JNaN | JNum int

datatype SelectionMode = MultiToggle | Single | SelNone | Multi

datatype SelectionBehavior = Row | RowSelector | RowOnly

datatype CELLTYPES = DATACELL | COLUMNHEADER | ROWHEADER | COLUMNROWHEADER

subsection \<open>DOM elements\<close>

text \<open>
  A DOM node carries the facts TableUtils reads from it. \<open>rowindex\<close> and \<open>colindex\<close> are
  \<^verbatim>\<open>parseInt\<close> of the attributes \<^verbatim>\<open>data-sap-ui-rowindex\<close> and \<^verbatim>\<open>data-sap-ui-colindex\<close>
  (\<open>JNaN\<close> when the attribute is missing); \<open>colspan\<close> is \<^verbatim>\<open>parseInt\<close> of the attribute
  \<^verbatim>\<open>colspan\<close>, \<open>None\<close> when that attribute is missing or empty. \<open>idAreas\<close> is the outcome of
  \<^verbatim>\<open>id.split("-")\<close> followed by \<^verbatim>\<open>parseInt(areas[2].slice(3))\<close> and
  \<^verbatim>\<open>parseInt(areas[3].slice(3))\<close>: \<open>None\<close> when the identifier has fewer than four areas
  (the \<^verbatim>\<open>slice\<close> on \<^verbatim>\<open>undefined\<close> throws). \<open>hasColDropDown\<close> says whether a descendant has
  the class \<^verbatim>\<open>sapUiTableColDropDown\<close>.

  An element (a one-element jQuery object) is the path from the node up to the document
  root, the node itself first; the empty path is the empty jQuery object.
\<close>

record node =
  nodeId :: nat
  tagName :: string
  classes :: "string list"
  rowindex :: js_num
  colindex :: js_num
  colspan :: "js_num option"
  idAreas :: "(js_num \<times> js_num) option"
  hasColDropDown :: bool

type_synonym elem = "node list"

definition hasClass :: "elem \<Rightarrow> string \<Rightarrow> bool" where
  "hasClass e c = (case e of [] \<Rightarrow> False | n # _ \<Rightarrow> c \<in> set (classes n))"

definition parent :: "elem \<Rightarrow> elem" where
  "parent e = (case e of [] \<Rightarrow> [] | _ # ns \<Rightarrow> ns)"

text \<open>
  jQuery's \<^verbatim>\<open>closest(selector, context)\<close>: walk from the element towards the root, stop
  without a match on reaching the context node, return the first node that matches.
\<close>

fun closest :: "(node \<Rightarrow> bool) \<Rightarrow> nat option \<Rightarrow> elem \<Rightarrow> elem" where
  "closest P ctx [] = []"
| "closest P ctx (n # ns) =
     (if Some (nodeId n) = ctx then []
      else if P n then n # ns
      else closest P ctx ns)"

definition closestClass :: "string \<Rightarrow> nat option \<Rightarrow> elem \<Rightarrow> elem" where
  "closestClass c ctx e = closest (\<lambda>n. c \<in> set (classes n)) ctx e"

definition attrRowindex :: "elem \<Rightarrow> js_num" where
  "attrRowindex e = (case e of [] \<Rightarrow> JNaN | n # _ \<Rightarrow> rowindex n)"

subsection \<open>Columns, rows, the table\<close>

text \<open>
  A column width is the string of the \<^verbatim>\<open>width\<close> property: empty, \<^verbatim>\<open>auto\<close>, a percentage,
  or a pixel length. \<open>WPx n\<close> stands for a fixed CSS length that the table's
  \<^verbatim>\<open>_CSSSizeToPixel\<close> converts to \<open>n\<close> pixels; \<^verbatim>\<open>setWidth(n + "px")\<close> stores \<open>WPx n\<close>.
\<close>

datatype css_width = WEmpty | WAuto | WPercent int | WPx int

text \<open>
  \<open>colOffsetWidth\<close> is \<^verbatim>\<open>getDomRef().offsetWidth\<close> of the column (\<open>None\<close>: not rendered);
  \<open>thOffsetWidth\<close> is the \<^verbatim>\<open>offsetWidth\<close> of the element
  \<^verbatim>\<open>th[data-sap-ui-colid=...]\<close> inside the table (\<open>None\<close>: no such element); \<open>minWidth\<close> is the
  private \<^verbatim>\<open>_minWidth\<close>; \<open>menuOpen\<close> is the open state of the column's menu; \<open>cellMenu\<close>
  says whether the header cell holds the two-button cell menu
  (\<^verbatim>\<open>.sapUiTableColCellMenu\<close>), and \<open>cellMenuButtons\<close> which of its buttons
  (menu trigger, resize trigger) were inserted.
\<close>

record column =
  visible :: bool
  resizable :: bool
  width :: css_width
  colOffsetWidth :: "int option"
  thOffsetWidth :: "int option"
  minWidth :: "int option"
  menuOpen :: bool
  menuHasItems :: bool
  filterableByMenu :: bool
  cellMenu :: bool
  cellMenuButtons :: "bool \<times> bool"

text \<open>
  A rendered row: its absolute index (\<^verbatim>\<open>getIndex()\<close>) and the DOM reference of each of
  its cell controls (the empty path when the cell is not rendered).
\<close>

record row =
  rowIndex :: int
  cells :: "elem list"

text \<open>The shared data cell context menu: open flag, opener cell, and the filter target.\<close>

record cell_menu =
  bOpen :: bool
  oOpenerRef :: "nat option"
  filterColumn :: nat
  filterRow :: int

text \<open>A ResizeHandler ID; in \<^verbatim>\<open>sap/ui/core/ResizeHandler\<close> a non-empty string, so always truthy.\<close>

datatype handle = Handle nat

text \<open>Notifications fired on the table, in the order they were fired.\<close>

datatype event =
  ColumnResize nat int
| ColumnSelect "nat option"
| CellContextmenu int int

record table =
  selectionMode :: SelectionMode
  selectionBehavior :: SelectionBehavior
  groupMode :: bool
  rowsBinding :: bool
  rowCount :: int
  selectableRowCount :: int
  selectedIndices :: "int set"
  iSourceRowIndex :: "int option"
  visibleRowCount :: int
  fixedRowCount :: int
  fixedBottomRowCount :: int
  firstVisibleRow :: int
  fixedColumnCount :: int
  columns :: "column list"
  rows :: "row list"
  domRef :: "nat option"
  domSuffixes :: "(string \<times> bool) list"
  enableCellFilter :: bool
  oCellContextMenu :: "cell_menu option"
  mResizeHandlerIds :: "(string \<times> handle option) list option"
  fired :: "event list"

text \<open>
  \<open>domRef\<close> is the table's root node (\<open>None\<close>: not rendered). \<open>domSuffixes\<close> lists the
  elements \<^verbatim>\<open>getDomRef(sIdSuffix)\<close> finds, by ID suffix, each with the flag whether it has a
  parent node. \<open>rowsBinding\<close> says whether \<^verbatim>\<open>getBinding("rows")\<close> exists; \<open>rowCount\<close> is
  \<^verbatim>\<open>_getRowCount()\<close>, \<open>selectableRowCount\<close> is \<^verbatim>\<open>_getSelectableRowCount()\<close>, \<open>groupMode\<close> is
  \<^verbatim>\<open>TableGrouping.isGroupMode\<close>.
\<close>

text \<open>
  What TableUtils reads from outside the table: \<^verbatim>\<open>Device.system.desktop\<close> and
  \<^verbatim>\<open>TableColumnUtils.getMinColumnWidth()\<close>.
\<close>

record env =
  desktop :: bool
  minColumnWidth :: int

section \<open>Selection\<close>

definition hasRowHeader :: "table \<Rightarrow> bool" where
  "hasRowHeader oTable =
     ((selectionMode oTable \<noteq> SelNone \<and> selectionBehavior oTable \<noteq> RowOnly)
      \<or> groupMode oTable)"

definition isRowSelectionAllowed :: "table \<Rightarrow> bool" where
  "isRowSelectionAllowed oTable =
     (selectionMode oTable \<noteq> SelNone \<and>
      (selectionBehavior oTable = Row \<or> selectionBehavior oTable = RowOnly))"

definition isRowSelectorSelectionAllowed :: "table \<Rightarrow> bool" where
  "isRowSelectorSelectionAllowed oTable =
     (selectionMode oTable \<noteq> SelNone \<and> hasRowHeader oTable)"

definition areAllRowsSelected :: "table option \<Rightarrow> bool" where
  "areAllRowsSelected oTable =
     (case oTable of
        None \<Rightarrow> False
      | Some t \<Rightarrow>
          (let iSelectableRowCount = selectableRowCount t
           in iSelectableRowCount > 0 \<and>
              iSelectableRowCount = int (card (selectedIndices t))))"

definition getCellInfo :: "elem \<Rightarrow> (CELLTYPES \<times> elem) option" where
  "getCellInfo oCellRef =
     (if oCellRef = [] then None
      else if hasClass oCellRef ''sapUiTableTd'' then Some (DATACELL, oCellRef)
      else if hasClass oCellRef ''sapUiTableCol'' then Some (COLUMNHEADER, oCellRef)
      else if hasClass oCellRef ''sapUiTableRowHdr'' then Some (ROWHEADER, oCellRef)
      else if hasClass oCellRef ''sapUiTableColRowHdr'' then Some (COLUMNROWHEADER, oCellRef)
      else None)"

definition isInGroupingRow :: "elem \<Rightarrow> bool" where
  "isInGroupingRow oCellRef =
     (case getCellInfo oCellRef of
        Some (DATACELL, cell) \<Rightarrow> hasClass (parent cell) ''sapUiTableGroupHeader''
      | Some (ROWHEADER, cell) \<Rightarrow> hasClass cell ''sapUiTableGroupHeader''
      | _ \<Rightarrow> False)"

text \<open>
  Modelled from the spec: \<^verbatim>\<open>isIndexSelected\<close>, \<^verbatim>\<open>addSelectionInterval\<close> and
  \<^verbatim>\<open>removeSelectionInterval\<close> are methods of the table, defined in Table.js and missing
  from the embedded sources. The spec names them the mutators that add and remove a
  selection interval of the table's selected-row index set; TableUtils calls them with
  the interval \<open>[i, i]\<close> only.
\<close>

definition isIndexSelected :: "table \<Rightarrow> int \<Rightarrow> bool" where
  "isIndexSelected t i = (i \<in> selectedIndices t)"

definition addSelectionInterval :: "table \<Rightarrow> int \<Rightarrow> int \<Rightarrow> table" where
  "addSelectionInterval t iFrom iTo =
     t\<lparr>selectedIndices := selectedIndices t \<union> {iFrom..iTo}\<rparr>"

definition removeSelectionInterval :: "table \<Rightarrow> int \<Rightarrow> int \<Rightarrow> table" where
  "removeSelectionInterval t iFrom iTo =
     t\<lparr>selectedIndices := selectedIndices t - {iFrom..iTo}\<rparr>"

text \<open>
  The inner function \<^verbatim>\<open>setSelectionState\<close> of \<^verbatim>\<open>toggleRowSelection\<close>. The marker
  \<^verbatim>\<open>_iSourceRowIndex\<close> is set first and deleted only on the path that changes the
  selection.
\<close>

definition setSelectionState :: "table \<Rightarrow> bool option \<Rightarrow> int \<Rightarrow> bool \<times> table" where
  "setSelectionState oTable bSelect iAbsoluteRowIndex =
     (let t1 = oTable\<lparr>iSourceRowIndex := Some iAbsoluteRowIndex\<rparr>
      in if isIndexSelected t1 iAbsoluteRowIndex then
           (if bSelect = Some True then (False, t1)
            else (True, (removeSelectionInterval t1 iAbsoluteRowIndex iAbsoluteRowIndex)
                          \<lparr>iSourceRowIndex := None\<rparr>))
         else
           (if bSelect = Some False then (False, t1)
            else (True, (addSelectionInterval t1 iAbsoluteRowIndex iAbsoluteRowIndex)
                          \<lparr>iSourceRowIndex := None\<rparr>)))"

text \<open>The row indicator: \<^verbatim>\<open>null\<close>, a number, or a jQuery object / DOM element.\<close>

datatype row_indicator = IndNull | IndNumber int | IndElem elem

text \<open>\<^verbatim>\<open>oTable.getRows()[n].getIndex()\<close>: a \<^verbatim>\<open>TypeError\<close> when there is no such row.\<close>

definition rowGetIndex :: "table \<Rightarrow> js_num \<Rightarrow> exn + int" where
  "rowGetIndex t n =
     (case n of
        JNaN \<Rightarrow> Inl TypeError
      | JNum i \<Rightarrow>
          (if 0 \<le> i \<and> i < int (length (rows t)) then Inr (rowIndex (rows t ! nat i))
           else Inl TypeError))"

definition toggleRowSelection ::
  "table option \<Rightarrow> row_indicator \<Rightarrow> bool option \<Rightarrow> exn + (bool \<times> table option)" where
  "toggleRowSelection oTable oRowIndicator bSelect =
     (case oTable of
        None \<Rightarrow> Inr (False, None)
      | Some t \<Rightarrow>
          (if \<not> rowsBinding t \<or> selectionMode t = SelNone \<or> oRowIndicator = IndNull
           then Inr (False, Some t)
           else
             (case oRowIndicator of
                IndNull \<Rightarrow> Inr (False, Some t)
              | IndNumber n \<Rightarrow>
                  (if n < 0 \<or> n \<ge> rowCount t then Inr (False, Some t)
                   else (case setSelectionState t bSelect n of
                           (b, t') \<Rightarrow> Inr (b, Some t')))
              | IndElem cell \<Rightarrow>
                  (case getCellInfo cell of
                     None \<Rightarrow> Inr (False, Some t)
                   | Some (ty, _) \<Rightarrow>
                       (if \<not> isInGroupingRow cell \<and>
                           ((ty = DATACELL \<and> isRowSelectionAllowed t) \<or>
                            (ty = ROWHEADER \<and> isRowSelectorSelectionAllowed t))
                        then
                          (case rowGetIndex t
                                  (if ty = DATACELL
                                   then attrRowindex (closest (\<lambda>n. tagName n = ''tr'') (domRef t) cell)
                                   else attrRowindex cell) of
                             Inl e \<Rightarrow> Inl e
                           | Inr iAbsoluteRowIndex \<Rightarrow>
                               (case setSelectionState t bSelect iAbsoluteRowIndex of
                                  (b, t') \<Rightarrow> Inr (b, Some t')))
                        else Inr (False, Some t))))))"

section \<open>Scrolling\<close>

definition getNonEmptyVisibleRowCount :: "table \<Rightarrow> int" where
  "getNonEmptyVisibleRowCount oTable = min (visibleRowCount oTable) (rowCount oTable)"

text \<open>
  Modelled from the spec: \<^verbatim>\<open>setFirstVisibleRow\<close>, defined in Table.js and missing from
  the embedded sources, is the table's mutator of the first-visible-row cursor.
\<close>

definition setFirstVisibleRow :: "table \<Rightarrow> int \<Rightarrow> table" where
  "setFirstVisibleRow t i = t\<lparr>firstVisibleRow := i\<rparr>"

text \<open>
  The table's private reading \<^verbatim>\<open>_getSanitizedFirstVisibleRow()\<close> is defined in Table.js
  as well: \<open>scroll\<close> and \<open>scrollMax\<close> take it as their first argument.
\<close>

definition scroll :: "(table \<Rightarrow> int) \<Rightarrow> table \<Rightarrow> bool \<Rightarrow> bool \<Rightarrow> bool \<times> table" where
  "scroll getSanitizedFirstVisibleRow oTable bDown bPage =
     (let iRowCount = rowCount oTable;
          iVisibleRowCount = visibleRowCount oTable;
          iScrollableRowCount =
            iVisibleRowCount - fixedRowCount oTable - fixedBottomRowCount oTable;
          iFirstVisibleScrollableRow = getSanitizedFirstVisibleRow oTable;
          iSize = (if bPage then iScrollableRowCount else 1)
      in if bDown then
           (if iFirstVisibleScrollableRow + iVisibleRowCount < iRowCount
            then (True, setFirstVisibleRow oTable
                          (min (iFirstVisibleScrollableRow + iSize)
                               (iRowCount - iVisibleRowCount)))
            else (False, oTable))
         else
           (if iFirstVisibleScrollableRow > 0
            then (True, setFirstVisibleRow oTable (max (iFirstVisibleScrollableRow - iSize) 0))
            else (False, oTable)))"


section \<open>Column resize\<close>

definition isFixedColumn :: "table \<Rightarrow> int \<Rightarrow> bool" where
  "isFixedColumn oTable iColIdx = (iColIdx < fixedColumnCount oTable)"

definition isVariableWidth :: "css_width \<Rightarrow> bool" where
  "isVariableWidth sWidth =
     (case sWidth of WEmpty \<Rightarrow> True | WAuto \<Rightarrow> True | WPercent _ \<Rightarrow> True | WPx _ \<Rightarrow> False)"

definition getColumnWidth :: "table option \<Rightarrow> int option \<Rightarrow> int option" where
  "getColumnWidth oTable iColumnIndex =
     (case oTable of
        None \<Rightarrow> None
      | Some t \<Rightarrow>
          (case iColumnIndex of
             None \<Rightarrow> None
           | Some i \<Rightarrow>
               (if i < 0 then None
                else if i \<ge> int (length (columns t)) then None
                else
                  (let oColumn = columns t ! nat i
                   in case width oColumn of
                        WPx n \<Rightarrow> Some n
                      | _ \<Rightarrow>
                          (if visible oColumn
                           then (case colOffsetWidth oColumn of Some w \<Rightarrow> Some w | None \<Rightarrow> Some 0)
                           else Some 0)))))"

text \<open>A \<^verbatim>\<open>null\<close> operand of \<^verbatim>\<open>+\<close> counts as 0.\<close>

definition toNumber :: "int option \<Rightarrow> int" where
  "toNumber v = (case v of None \<Rightarrow> 0 | Some n \<Rightarrow> n)"

text \<open>
  \<^verbatim>\<open>Math.round(p / n)\<close> for integers \<open>p\<close> and \<open>n > 0\<close>: the nearest integer, a tie going
  towards \<open>+\<infinity>\<close>. In \<^verbatim>\<open>resizeColumn\<close> the divisor is 0 only after the last
  column, where the quotient is never read.
\<close>

definition Math_round_div :: "int \<Rightarrow> int \<Rightarrow> int" where
  "Math_round_div p n = (2 * p + n) div (2 * n)"

text \<open>
  The first loop of \<^verbatim>\<open>resizeColumn\<close>: the indices of the visible columns from
  \<open>iColumnIndex\<close> on, at most \<open>iColumnSpan\<close> of them.
\<close>

fun collectVisibleColumns :: "column list \<Rightarrow> nat \<Rightarrow> int \<Rightarrow> nat list \<Rightarrow> nat list" where
  "collectVisibleColumns [] i iColumnSpan aVisibleColumns = aVisibleColumns"
| "collectVisibleColumns (oColumn # cs) i iColumnSpan aVisibleColumns =
     (if visible oColumn then
        (if int (length (aVisibleColumns @ [i])) = iColumnSpan
         then aVisibleColumns @ [i]
         else collectVisibleColumns cs (Suc i) iColumnSpan (aVisibleColumns @ [i]))
      else collectVisibleColumns cs (Suc i) iColumnSpan aVisibleColumns)"

text \<open>
  Modelled from the spec: \<^verbatim>\<open>_getVisibleColumns()\<close>, defined in Table.js and missing from
  the embedded sources, lists the visible columns, a visible column being one with its
  visibility flag set. The columns are given by their index in the \<^verbatim>\<open>columns\<close>
  aggregation.
\<close>

definition getVisibleColumns :: "table \<Rightarrow> nat list" where
  "getVisibleColumns t = filter (\<lambda>i. visible (columns t ! i)) [0..<length (columns t)]"

text \<open>
  The \<^verbatim>\<open>forEach\<close> that pins the rendered width of the flexible columns outside the
  resized span as their minimum width.
\<close>

definition pinColumn :: "env \<Rightarrow> table \<Rightarrow> nat list \<Rightarrow> nat \<Rightarrow> column \<Rightarrow> column" where
  "pinColumn e oTable aResizableColumns i col =
     (if visible col \<and> domRef oTable \<noteq> None \<and> i \<notin> set aResizableColumns
         \<and> isVariableWidth (width col)
      then (case thOffsetWidth col of
              Some w \<Rightarrow> col\<lparr>minWidth := Some (max w (minColumnWidth e))\<rparr>
            | None \<Rightarrow> col)
      else col)"

definition pinMinWidths :: "env \<Rightarrow> table \<Rightarrow> nat list \<Rightarrow> table" where
  "pinMinWidths e oTable aResizableColumns =
     oTable\<lparr>columns :=
       map (\<lambda>i. pinColumn e oTable aResizableColumns i (columns oTable ! i))
           [0..<length (columns oTable)]\<rparr>"

definition setWidth :: "table \<Rightarrow> nat \<Rightarrow> css_width \<Rightarrow> table" where
  "setWidth t i w = t\<lparr>columns := (columns t)[i := (columns t ! i)\<lparr>width := w\<rparr>]\<rparr>"

text \<open>
  The last loop of \<^verbatim>\<open>resizeColumn\<close>, over the resizable columns still to be processed.
  \<open>fireColumnResize\<close> is the outcome of the attached handlers: \<open>True\<close> unless the default
  action was prevented. Every fired notification is appended to \<open>fired\<close>.
\<close>

fun resizeColumns ::
  "env \<Rightarrow> (event \<Rightarrow> bool) \<Rightarrow> bool \<Rightarrow> nat list \<Rightarrow> int \<Rightarrow> int \<Rightarrow> bool \<Rightarrow> table \<Rightarrow> bool \<times> table" where
  "resizeColumns e fireColumnResize bFireEvent [] iPixelDelta iSharedPixelDelta
     bResizeWasPerformed t = (bResizeWasPerformed, t)"
| "resizeColumns e fireColumnResize bFireEvent (c # rest) iPixelDelta iSharedPixelDelta
     bResizeWasPerformed t =
     (let iColumnWidth = toNumber (getColumnWidth (Some t) (Some (int c)));
          iColMinWidth = minColumnWidth e;
          iNewWidth = (if iColumnWidth + iSharedPixelDelta < iColMinWidth then iColMinWidth
                       else iColumnWidth + iSharedPixelDelta);
          iWidthChange = iNewWidth - iColumnWidth;
          bRemaining = (\<bar>iWidthChange\<bar> < \<bar>iSharedPixelDelta\<bar>);
          iPixelDelta' = (if bRemaining then iPixelDelta - iWidthChange else iPixelDelta);
          iSharedPixelDelta' =
            (if bRemaining then Math_round_div iPixelDelta' (int (length rest))
             else iSharedPixelDelta)
      in if iWidthChange \<noteq> 0 then
           (let t1 = (if bFireEvent then t\<lparr>fired := fired t @ [ColumnResize c iNewWidth]\<rparr>
                      else t);
                bExecuteDefault =
                  (if bFireEvent then fireColumnResize (ColumnResize c iNewWidth) else True)
            in if bExecuteDefault
               then resizeColumns e fireColumnResize bFireEvent rest iPixelDelta'
                      iSharedPixelDelta' True (setWidth t1 c (WPx iNewWidth))
               else resizeColumns e fireColumnResize bFireEvent rest iPixelDelta'
                      iSharedPixelDelta' bResizeWasPerformed t1)
         else resizeColumns e fireColumnResize bFireEvent rest iPixelDelta'
                iSharedPixelDelta' bResizeWasPerformed t)"

definition resizeColumn ::
  "env \<Rightarrow> (event \<Rightarrow> bool) \<Rightarrow> table option \<Rightarrow> int option \<Rightarrow> int option \<Rightarrow> bool option
     \<Rightarrow> int option \<Rightarrow> bool \<times> table option" where
  "resizeColumn e fireColumnResize oTable iColumnIndex iWidth bFireEvent iColumnSpan =
     (case oTable of
        None \<Rightarrow> (False, None)
      | Some t \<Rightarrow>
          (case iColumnIndex of
             None \<Rightarrow> (False, Some t)
           | Some iColumnIndex \<Rightarrow>
               (case iWidth of
                  None \<Rightarrow> (False, Some t)
                | Some iWidth \<Rightarrow>
                    (if iColumnIndex < 0 \<or> iWidth \<le> 0 then (False, Some t)
                     else
                       (let iColumnSpan =
                              (case iColumnSpan of
                                 None \<Rightarrow> 1
                               | Some s \<Rightarrow> if s \<le> 0 then 1 else s);
                            bFireEvent = (case bFireEvent of None \<Rightarrow> True | Some b \<Rightarrow> b);
                            aColumns = columns t
                        in if iColumnIndex \<ge> int (length aColumns)
                              \<or> \<not> visible (aColumns ! nat iColumnIndex)
                           then (False, Some t)
                           else
                             (let aVisibleColumns =
                                    collectVisibleColumns (drop (nat iColumnIndex) aColumns)
                                      (nat iColumnIndex) iColumnSpan [];
                                  aResizableColumns =
                                    filter (\<lambda>i. resizable (aColumns ! i)) aVisibleColumns
                              in if length aResizableColumns = 0 then (False, Some t)
                                 else
                                   (let iSpanWidth =
                                          sum_list
                                            (map (\<lambda>i. toNumber (getColumnWidth (Some t) (Some (int i))))
                                                 aVisibleColumns);
                                        iPixelDelta = iWidth - iSpanWidth;
                                        iSharedPixelDelta =
                                          Math_round_div iPixelDelta
                                            (int (length aResizableColumns));
                                        t1 = (if \<not> isFixedColumn t iColumnIndex
                                              then pinMinWidths e t aResizableColumns
                                              else t)
                                    in case resizeColumns e fireColumnResize bFireEvent
                                              aResizableColumns iPixelDelta iSharedPixelDelta
                                              False t1 of
                                         (b, t') \<Rightarrow> (b, Some t'))))))))"

section \<open>Resize handler registration\<close>

text \<open>
  The DOM element a listener observes: the element the table finds for an ID suffix, or
  the parent node of that element.
\<close>

datatype dom_target = Element string | ParentOf string

definition targetKey :: "dom_target \<Rightarrow> string" where
  "targetKey d = (case d of Element s \<Rightarrow> s | ParentOf s \<Rightarrow> s)"

text \<open>The global \<^verbatim>\<open>sap/ui/core/ResizeHandler\<close>: its live listeners and its ID counter.\<close>

record resize_handler =
  aResizeListeners :: "(handle \<times> dom_target) list"
  iIdCounter :: nat

text \<open>
  Modelled from the spec: \<^verbatim>\<open>ResizeHandler.register\<close> and \<^verbatim>\<open>ResizeHandler.deregister\<close>,
  defined in sap/ui/core/ResizeHandler and missing from the embedded sources, are the
  resize-observation registration and deregistration of the DOM layer: \<open>register\<close> adds a
  live listener and returns its new handle, \<open>deregister\<close> removes the listener with the
  given handle.
\<close>

definition ResizeHandler_register :: "resize_handler \<Rightarrow> dom_target \<Rightarrow> handle \<times> resize_handler" where
  "ResizeHandler_register rh oDomRef =
     (Handle (iIdCounter rh),
      rh\<lparr>aResizeListeners := aResizeListeners rh @ [(Handle (iIdCounter rh), oDomRef)],
         iIdCounter := Suc (iIdCounter rh)\<rparr>)"

definition ResizeHandler_deregister :: "resize_handler \<Rightarrow> handle \<Rightarrow> resize_handler" where
  "ResizeHandler_deregister rh sId =
     rh\<lparr>aResizeListeners := filter (\<lambda>l. fst l \<noteq> sId) (aResizeListeners rh)\<rparr>"

text \<open>An argument that may be a string, \<^verbatim>\<open>undefined\<close>, an array of strings, or anything else.\<close>

datatype js_value = VUndefined | VString string | VArray "string list" | VOther

text \<open>
  The registration map \<^verbatim>\<open>_mResizeHandlerIds\<close> is an association list from ID suffix to
  handle; \<open>Some None\<close> under a key is a property set to \<^verbatim>\<open>undefined\<close>.
\<close>

definition lookupHandle :: "(string \<times> handle option) list \<Rightarrow> string \<Rightarrow> handle option" where
  "lookupHandle m sIdSuffix = (case map_of m sIdSuffix of Some (Some h) \<Rightarrow> Some h | _ \<Rightarrow> None)"

text \<open>The final loop of \<^verbatim>\<open>deregisterResizeHandler\<close> over the suffixes to de-register.\<close>

fun deregisterLoop ::
  "resize_handler \<Rightarrow> (string \<times> handle option) list \<Rightarrow> string list
     \<Rightarrow> resize_handler \<times> (string \<times> handle option) list" where
  "deregisterLoop rh m [] = (rh, m)"
| "deregisterLoop rh m (sIdSuffix # rest) =
     (case lookupHandle m sIdSuffix of
        Some h \<Rightarrow>
          deregisterLoop (ResizeHandler_deregister rh h) (AList.update sIdSuffix None m) rest
      | None \<Rightarrow> deregisterLoop rh m rest)"

definition deregisterResizeHandler ::
  "resize_handler \<Rightarrow> table \<Rightarrow> js_value \<Rightarrow> exn + (resize_handler \<times> table)" where
  "deregisterResizeHandler rh oTable vIdSuffix =
     (case mResizeHandlerIds oTable of
        None \<Rightarrow> Inr (rh, oTable)
      | Some m \<Rightarrow>
          (case (case vIdSuffix of
                   VString s \<Rightarrow> Some [s]
                 | VUndefined \<Rightarrow> Some (map fst m)
                 | VArray a \<Rightarrow> Some a
                 | VOther \<Rightarrow> None) of
             None \<Rightarrow> Inl TypeError
           | Some aIdSuffix \<Rightarrow>
               (case deregisterLoop rh m aIdSuffix of
                  (rh', m') \<Rightarrow> Inr (rh', oTable\<lparr>mResizeHandlerIds := Some m'\<rparr>))))"

text \<open>
  \<open>fnHandler\<close> says whether the handler argument is a function. The result is the returned
  handle (\<open>None\<close>: \<^verbatim>\<open>undefined\<close>) with the new state of the ResizeHandler and of the table.
\<close>

definition registerResizeHandler ::
  "resize_handler \<Rightarrow> table \<Rightarrow> js_value \<Rightarrow> bool \<Rightarrow> bool
     \<Rightarrow> exn + (handle option \<times> resize_handler \<times> table)" where
  "registerResizeHandler rh oTable sIdSuffix fnHandler bRegisterParent =
     (case sIdSuffix of
        VString s \<Rightarrow>
          (if \<not> fnHandler then Inr (None, rh, oTable)
           else
             (case deregisterResizeHandler rh oTable (VString s) of
                Inl e \<Rightarrow> Inl e
              | Inr (rh1, t1) \<Rightarrow>
                  (let m = (case mResizeHandlerIds t1 of None \<Rightarrow> [] | Some m \<Rightarrow> m);
                       oDomRef =
                         (case map_of (domSuffixes t1) s of
                            None \<Rightarrow> None
                          | Some hasParent \<Rightarrow>
                              (if bRegisterParent
                               then (if hasParent then Some (ParentOf s) else None)
                               else Some (Element s)))
                   in case oDomRef of
                        None \<Rightarrow> Inr (lookupHandle m s, rh1, t1\<lparr>mResizeHandlerIds := Some m\<rparr>)
                      | Some d \<Rightarrow>
                          (case ResizeHandler_register rh1 d of
                             (h, rh2) \<Rightarrow>
                               Inr (Some h, rh2,
                                    t1\<lparr>mResizeHandlerIds :=
                                         Some (AList.update s (Some h) m)\<rparr>)))))
      | _ \<Rightarrow> Inr (None, rh, oTable))"

text \<open>
  A history of calls on one table: registrations, de-registrations, and re-renderings
  that replace the elements found by \<^verbatim>\<open>getDomRef(sIdSuffix)\<close>. A call that throws leaves
  the state as it was (\<^verbatim>\<open>deregisterResizeHandler\<close> throws before it changes anything).
\<close>

datatype rh_call =
  Register js_value bool bool
| Deregister js_value
| Rerender "(string \<times> bool) list"

definition rh_step :: "resize_handler \<times> table \<Rightarrow> rh_call \<Rightarrow> resize_handler \<times> table" where
  "rh_step st c =
     (case c of
        Register sIdSuffix fnHandler bRegisterParent \<Rightarrow>
          (case registerResizeHandler (fst st) (snd st) sIdSuffix fnHandler bRegisterParent of
             Inl _ \<Rightarrow> st
           | Inr (_, rh', t') \<Rightarrow> (rh', t'))
      | Deregister vIdSuffix \<Rightarrow>
          (case deregisterResizeHandler (fst st) (snd st) vIdSuffix of
             Inl _ \<Rightarrow> st
           | Inr st' \<Rightarrow> st')
      | Rerender d \<Rightarrow> (fst st, (snd st)\<lparr>domSuffixes := d\<rparr>))"

definition rh_run :: "resize_handler \<times> table \<Rightarrow> rh_call list \<Rightarrow> resize_handler \<times> table" where
  "rh_run st cs = foldl rh_step st cs"

text \<open>The live handles of the listeners that observe the DOM region of an ID suffix.\<close>

definition liveHandles :: "resize_handler \<Rightarrow> string \<Rightarrow> handle list" where
  "liveHandles rh sIdSuffix =
     map fst (filter (\<lambda>l. targetKey (snd l) = sIdSuffix) (aResizeListeners rh))"

text \<open>The handle the table stores under an ID suffix, as a list of at most one element.\<close>

definition storedHandles :: "table \<Rightarrow> string \<Rightarrow> handle list" where
  "storedHandles t sIdSuffix =
     (case mResizeHandlerIds t of
        None \<Rightarrow> []
      | Some m \<Rightarrow> (case lookupHandle m sIdSuffix of None \<Rightarrow> [] | Some h \<Rightarrow> [h]))"

section \<open>Context menus\<close>

definition getColumnHeaderCellInfo :: "elem option \<Rightarrow> (js_num \<times> js_num) option" where
  "getColumnHeaderCellInfo oCell =
     (case oCell of
        None \<Rightarrow> None
      | Some cell \<Rightarrow>
          (case getCellInfo cell of
             Some (COLUMNHEADER, _) \<Rightarrow>
               (case cell of
                  [] \<Rightarrow> None
                | n # _ \<Rightarrow>
                    Some (colindex n, (case colspan n of None \<Rightarrow> JNum 1 | Some sp \<Rightarrow> sp)))
           | _ \<Rightarrow> None))"

definition getParentDataCell :: "table option \<Rightarrow> elem option \<Rightarrow> elem option" where
  "getParentDataCell oTable oElement =
     (case oTable of
        None \<Rightarrow> None
      | Some t \<Rightarrow>
          (case oElement of
             None \<Rightarrow> None
           | Some el \<Rightarrow>
               (let ParentCell = closestClass ''sapUiTableTd'' (domRef t) (parent el)
                in if length ParentCell > 0 then Some ParentCell else None)))"

definition getCell :: "table option \<Rightarrow> elem option \<Rightarrow> elem option" where
  "getCell oTable oElement =
     (case oTable of
        None \<Rightarrow> None
      | Some t \<Rightarrow>
          (case oElement of
             None \<Rightarrow> None
           | Some el \<Rightarrow>
               (let oTableElement = domRef t
                in if length (closestClass ''sapUiTableTd'' oTableElement el) > 0
                   then Some (closestClass ''sapUiTableTd'' oTableElement el)
                   else if length (closestClass ''sapUiTableCol'' oTableElement el) > 0
                   then Some (closestClass ''sapUiTableCol'' oTableElement el)
                   else if length (closestClass ''sapUiTableRowHdr'' oTableElement el) > 0
                   then Some (closestClass ''sapUiTableRowHdr'' oTableElement el)
                   else if length (closestClass ''sapUiTableColRowHdr'' oTableElement el) > 0
                   then Some (closestClass ''sapUiTableColRowHdr'' oTableElement el)
                   else None)))"

text \<open>
  The guard shared by the column functions below, which all begin
  \<^verbatim>\<open>if (iColumnIndex == null || iColumnIndex < 0) return;\<close>
  \<^verbatim>\<open>if (iColumnIndex >= oColumns.length) return;\<close> and then dereference
  \<^verbatim>\<open>oColumns[iColumnIndex]\<close>. \<open>None\<close> is the early return; \<^verbatim>\<open>NaN\<close> passes both
  comparisons and the dereference of \<^verbatim>\<open>undefined\<close> throws.
\<close>

definition columnAt :: "table \<Rightarrow> js_num option \<Rightarrow> (exn + nat) option" where
  "columnAt t iColumnIndex =
     (case iColumnIndex of
        None \<Rightarrow> None
      | Some JNaN \<Rightarrow> Some (Inl TypeError)
      | Some (JNum i) \<Rightarrow>
          (if i < 0 then None
           else if i \<ge> int (length (columns t)) then None
           else Some (Inr (nat i))))"

definition updateColumn :: "table \<Rightarrow> nat \<Rightarrow> (column \<Rightarrow> column) \<Rightarrow> table" where
  "updateColumn t i f = t\<lparr>columns := (columns t)[i := f (columns t ! i)]\<rparr>"

text \<open>
  Modelled from the spec: the column's menu (\<^verbatim>\<open>getMenu().close()\<close>, \<^verbatim>\<open>_openMenu\<close>) and the
  menu class of the data cell menu (\<^verbatim>\<open>open\<close>, \<^verbatim>\<open>close\<close>) are missing from the embedded
  sources; opening sets the open state (and the opener), closing clears the open state.
\<close>

definition closeColumnContextMenu :: "table \<Rightarrow> js_num option \<Rightarrow> exn + table" where
  "closeColumnContextMenu oTable iColumnIndex =
     (case columnAt oTable iColumnIndex of
        None \<Rightarrow> Inr oTable
      | Some (Inl e) \<Rightarrow> Inl e
      | Some (Inr i) \<Rightarrow> Inr (updateColumn oTable i (\<lambda>c. c\<lparr>menuOpen := False\<rparr>)))"

fun closeOtherColumnMenus :: "table \<Rightarrow> nat \<Rightarrow> nat list \<Rightarrow> exn + table" where
  "closeOtherColumnMenus t iColumn [] = Inr t"
| "closeOtherColumnMenus t iColumn (i # rest) =
     (if i \<noteq> iColumn then
        (case closeColumnContextMenu t (Some (JNum (int i))) of
           Inl e \<Rightarrow> Inl e
         | Inr t' \<Rightarrow> closeOtherColumnMenus t' iColumn rest)
      else closeOtherColumnMenus t iColumn rest)"

definition openColumnContextMenu :: "table \<Rightarrow> js_num option \<Rightarrow> bool option \<Rightarrow> exn + table" where
  "openColumnContextMenu oTable iColumnIndex bHoverFirstMenuItem =
     (case columnAt oTable iColumnIndex of
        None \<Rightarrow> Inr oTable
      | Some (Inl e) \<Rightarrow> Inl e
      | Some (Inr i) \<Rightarrow>
          (if \<not> visible (columns oTable ! i) then Inr oTable
           else
             (case closeOtherColumnMenus oTable i [0..<length (columns oTable)] of
                Inl e \<Rightarrow> Inl e
              | Inr t' \<Rightarrow> Inr (updateColumn t' i (\<lambda>c. c\<lparr>menuOpen := True\<rparr>)))))"

definition closeDataCellContextMenu :: "table \<Rightarrow> table" where
  "closeDataCellContextMenu oTable =
     (case oCellContextMenu oTable of
        None \<Rightarrow> oTable
      | Some oMenu \<Rightarrow>
          (if bOpen oMenu then oTable\<lparr>oCellContextMenu := Some (oMenu\<lparr>bOpen := False\<rparr>)\<rparr>
           else oTable))"

text \<open>\<^verbatim>\<open>oTable.getRows()[iRowIndex]\<close>: \<open>None\<close> is \<^verbatim>\<open>undefined\<close>.\<close>

definition rowAt :: "table \<Rightarrow> js_num \<Rightarrow> row option" where
  "rowAt t n =
     (case n of
        JNaN \<Rightarrow> None
      | JNum i \<Rightarrow> (if 0 \<le> i \<and> i < int (length (rows t)) then Some (rows t ! nat i) else None))"

definition openDataCellContextMenu ::
  "table \<Rightarrow> js_num option \<Rightarrow> js_num option \<Rightarrow> bool option \<Rightarrow> exn + table" where
  "openDataCellContextMenu oTable iColumnIndex iRowIndex bHoverFirstMenuItem =
     (case iRowIndex of
        None \<Rightarrow> Inr oTable
      | Some iRow \<Rightarrow>
          (if (case iRow of JNaN \<Rightarrow> False
               | JNum r \<Rightarrow> r < 0 \<or> r \<ge> getNonEmptyVisibleRowCount oTable)
           then Inr oTable
           else
             (case columnAt oTable iColumnIndex of
                None \<Rightarrow> Inr oTable
              | Some (Inl e) \<Rightarrow> Inl e
              | Some (Inr i) \<Rightarrow>
                  (let oColumn = columns oTable ! i
                   in if \<not> visible oColumn then Inr oTable
                      else if enableCellFilter oTable \<and> filterableByMenu oColumn then
                        (case rowAt oTable iRow of
                           None \<Rightarrow> Inl TypeError
                         | Some oRow \<Rightarrow>
                             (let oMenu =
                                    (case oCellContextMenu oTable of
                                       None \<Rightarrow>
                                         \<lparr>bOpen = False, oOpenerRef = None, filterColumn = i,
                                            filterRow = rowIndex oRow\<rparr>
                                     | Some m \<Rightarrow> m\<lparr>filterColumn := i, filterRow := rowIndex oRow\<rparr>);
                                  t1 = oTable\<lparr>oCellContextMenu := Some oMenu\<rparr>
                              in if i \<ge> length (cells oRow) then Inl TypeError
                                 else
                                   (case getParentDataCell (Some t1)
                                           (if cells oRow ! i = [] then None
                                            else Some (cells oRow ! i)) of
                                      None \<Rightarrow> Inr t1
                                    | Some Cell \<Rightarrow>
                                        (if isInGroupingRow Cell then Inr t1
                                         else
                                           (let eCell = nodeId (hd Cell);
                                                t2 = (if bOpen oMenu \<and> oOpenerRef oMenu \<noteq> Some eCell
                                                      then closeDataCellContextMenu t1 else t1)
                                            in Inr (t2\<lparr>oCellContextMenu :=
                                                       Some (oMenu\<lparr>bOpen := True,
                                                                  oOpenerRef := Some eCell\<rparr>)\<rparr>))))))
                      else Inr oTable))))"

text \<open>
  The cell menu is inserted into the rendered header cell of the column; on a column
  that is not rendered the jQuery object is empty and nothing is inserted.
\<close>

definition applyColumnHeaderCellMenu :: "table \<Rightarrow> js_num option \<Rightarrow> exn + table" where
  "applyColumnHeaderCellMenu oTable iColumnIndex =
     (case columnAt oTable iColumnIndex of
        None \<Rightarrow> Inr oTable
      | Some (Inl e) \<Rightarrow> Inl e
      | Some (Inr i) \<Rightarrow>
          (let oColumn = columns oTable ! i
           in if visible oColumn \<and> (resizable oColumn \<or> menuHasItems oColumn) then
                (if \<not> cellMenu oColumn \<and> colOffsetWidth oColumn \<noteq> None
                 then Inr (updateColumn oTable i
                        (\<lambda>c. c\<lparr>cellMenu := True,
                               cellMenuButtons := (menuHasItems oColumn, resizable oColumn)\<rparr>))
                 else Inr oTable)
              else Inr oTable))"

definition removeColumnHeaderCellMenu :: "table \<Rightarrow> js_num option \<Rightarrow> exn + table" where
  "removeColumnHeaderCellMenu oTable iColumnIndex =
     (case columnAt oTable iColumnIndex of
        None \<Rightarrow> Inr oTable
      | Some (Inl e) \<Rightarrow> Inl e
      | Some (Inr i) \<Rightarrow>
          (if cellMenu (columns oTable ! i)
           then Inr (updateColumn oTable i
                  (\<lambda>c. c\<lparr>cellMenu := False, cellMenuButtons := (False, False)\<rparr>))
           else Inr oTable))"

text \<open>The column \<^verbatim>\<open>_getVisibleColumns()[iColumnIndex]\<close>, \<open>None\<close> for \<^verbatim>\<open>undefined\<close>.\<close>

definition visibleColumnAt :: "table \<Rightarrow> js_num \<Rightarrow> nat option" where
  "visibleColumnAt t n =
     (case n of
        JNaN \<Rightarrow> None
      | JNum i \<Rightarrow>
          (if 0 \<le> i \<and> i < int (length (getVisibleColumns t))
           then Some (getVisibleColumns t ! nat i) else None))"

text \<open>
  \<open>fireEvent\<close> is the outcome of the handlers attached to \<^verbatim>\<open>ColumnSelect\<close> and
  \<^verbatim>\<open>CellContextmenu\<close>: \<open>True\<close> unless the default action was prevented. The function
  returns nothing; the result is the table after the call.
\<close>

definition openContextMenu ::
  "env \<Rightarrow> (event \<Rightarrow> bool) \<Rightarrow> table option \<Rightarrow> elem option \<Rightarrow> bool option \<Rightarrow> bool option
     \<Rightarrow> exn + table option" where
  "openContextMenu e fireEvent oTable oElement bHoverFirstMenuItem bFireEvent =
     (case oTable of
        None \<Rightarrow> Inr None
      | Some t \<Rightarrow>
          (case getCell (Some t) oElement of
             None \<Rightarrow> Inr (Some t)
           | Some TableCell \<Rightarrow>
               (let bFireEvent = (case bFireEvent of None \<Rightarrow> True | Some b \<Rightarrow> b)
                in case getCellInfo TableCell of
                     None \<Rightarrow> Inl TypeError
                   | Some (COLUMNHEADER, _) \<Rightarrow>
                       (case getColumnHeaderCellInfo (Some TableCell) of
                          None \<Rightarrow> Inl TypeError
                        | Some (iColumnIndex, _) \<Rightarrow>
                            (if desktop e \<or> hasColDropDown (hd TableCell) then
                               (case removeColumnHeaderCellMenu t (Some iColumnIndex) of
                                  Inl ex \<Rightarrow> Inl ex
                                | Inr t1 \<Rightarrow>
                                    (let ev = ColumnSelect (visibleColumnAt t1 iColumnIndex);
                                         t2 = (if bFireEvent then t1\<lparr>fired := fired t1 @ [ev]\<rparr>
                                               else t1);
                                         bExecuteDefault = (if bFireEvent then fireEvent ev else True)
                                     in if bExecuteDefault then
                                          (case openColumnContextMenu t2 (Some iColumnIndex)
                                                  bHoverFirstMenuItem of
                                             Inl ex \<Rightarrow> Inl ex
                                           | Inr t3 \<Rightarrow> Inr (Some t3))
                                        else Inr (Some t2)))
                             else
                               (case applyColumnHeaderCellMenu t (Some iColumnIndex) of
                                  Inl ex \<Rightarrow> Inl ex
                                | Inr t1 \<Rightarrow> Inr (Some t1))))
                   | Some (DATACELL, _) \<Rightarrow>
                       (case idAreas (hd TableCell) of
                          None \<Rightarrow> Inl TypeError
                        | Some (iRowIndex, iColumnIndex) \<Rightarrow>
                            (if bFireEvent then
                               (case rowAt t iRowIndex of
                                  None \<Rightarrow> Inl TypeError
                                | Some oRow \<Rightarrow>
                                    (case iColumnIndex of
                                       JNaN \<Rightarrow> Inl TypeError
                                     | JNum c \<Rightarrow>
                                         (if c < 0 \<or> c \<ge> int (length (columns t)) then Inl TypeError
                                          else
                                            (let ev = CellContextmenu (rowIndex oRow) c;
                                                 t1 = t\<lparr>fired := fired t @ [ev]\<rparr>
                                             in if fireEvent ev then
                                                  (case openDataCellContextMenu t1 (Some iColumnIndex)
                                                          (Some iRowIndex) bHoverFirstMenuItem of
                                                     Inl ex \<Rightarrow> Inl ex
                                                   | Inr t2 \<Rightarrow> Inr (Some t2))
                                                else Inr (Some t1)))))
                             else
                               (case openDataCellContextMenu t (Some iColumnIndex) (Some iRowIndex)
                                       bHoverFirstMenuItem of
                                  Inl ex \<Rightarrow> Inl ex
                                | Inr t2 \<Rightarrow> Inr (Some t2))))
                   | Some _ \<Rightarrow> Inr (Some t))))"

section \<open>Example states\<close>

text \<open>
  A resizable, visible, rendered column of 100 pixels; a bound table of ten rows, five of
  them visible, with two such columns; a desktop device with a minimum column width of 48
  pixels; a handler that never prevents the default action, and one that always does; a
  ResizeHandler without listeners; a data cell in a table row and a column header cell;
  the table with its second column of width \<^verbatim>\<open>auto\<close>, and the table with the cell menu
  inserted into its first column header.
\<close>

definition exampleColumn :: column where
  "exampleColumn =
     \<lparr>visible = True, resizable = True, width = WPx 100, colOffsetWidth = Some 100,
      thOffsetWidth = Some 100, minWidth = None, menuOpen = False, menuHasItems = True,
      filterableByMenu = True, cellMenu = False, cellMenuButtons = (False, False)\<rparr>"

definition exampleTable :: table where
  "exampleTable =
     \<lparr>selectionMode = MultiToggle, selectionBehavior = RowSelector, groupMode = False,
      rowsBinding = True, rowCount = 10, selectableRowCount = 10, selectedIndices = {},
      iSourceRowIndex = None, visibleRowCount = 5, fixedRowCount = 0,
      fixedBottomRowCount = 0, firstVisibleRow = 0, fixedColumnCount = 0,
      columns = [exampleColumn, exampleColumn], rows = [], domRef = Some 0,
      domSuffixes = [(''sapUiTableCnt'', True)], enableCellFilter = True,
      oCellContextMenu = None,
      mResizeHandlerIds = None, fired = []\<rparr>"

definition exampleEnv :: env where
  "exampleEnv = \<lparr>desktop = True, minColumnWidth = 48\<rparr>"

definition allowDefault :: "event \<Rightarrow> bool" where
  "allowDefault ev = True"

definition preventDefault :: "event \<Rightarrow> bool" where
  "preventDefault ev = False"

definition exampleResizeHandler :: resize_handler where
  "exampleResizeHandler = \<lparr>aResizeListeners = [], iIdCounter = 0\<rparr>"

definition exampleDataCell :: elem where
  "exampleDataCell =
     [\<lparr>nodeId = 7, tagName = ''td'', classes = [''sapUiTableTd''], rowindex = JNaN,
       colindex = JNaN, colspan = None, idAreas = Some (JNum 0, JNum 0),
       hasColDropDown = False\<rparr>,
      \<lparr>nodeId = 6, tagName = ''tr'', classes = [], rowindex = JNum 0, colindex = JNaN,
       colspan = None, idAreas = None, hasColDropDown = False\<rparr>]"

definition exampleHeaderCell :: elem where
  "exampleHeaderCell =
     [\<lparr>nodeId = 3, tagName = ''td'', classes = [''sapUiTableCol''], rowindex = JNaN,
       colindex = JNum 0, colspan = None, idAreas = None, hasColDropDown = False\<rparr>]"

definition exampleTableAuto :: table where
  "exampleTableAuto = exampleTable\<lparr>columns := [exampleColumn, exampleColumn\<lparr>width := WAuto\<rparr>]\<rparr>"

definition exampleTableCellMenu :: table where
  "exampleTableCellMenu =
     exampleTable\<lparr>columns := [exampleColumn\<lparr>cellMenu := True, cellMenuButtons := (True, True)\<rparr>,
                               exampleColumn]\<rparr>"

section \<open>Predicates of the statements\<close>

text \<open>A width is a pixel width of at least \<open>m\<close> pixels.\<close>

definition atLeastPx :: "int \<Rightarrow> css_width \<Rightarrow> bool" where
  "atLeastPx m w = (case w of WPx n \<Rightarrow> m \<le> n | _ \<Rightarrow> False)"


text \<open>The selection after the state of index \<open>i\<close> was flipped.\<close>

definition toggled :: "int set \<Rightarrow> int \<Rightarrow> int set" where
  "toggled S i = (if i \<in> S then S - {i} else insert i S)"

text \<open>
  What a user sees of widths, selection and menus: the column widths, the selected
  indices, the open state of each column menu, and the data cell context menu.
\<close>

definition widthsSelectionMenus ::
  "table \<Rightarrow> css_width list \<times> int set \<times> bool list \<times> cell_menu option" where
  "widthsSelectionMenus t =
     (map width (columns t), selectedIndices t, map menuOpen (columns t), oCellContextMenu t)"

text \<open>The registration map of a table, empty when none was created yet.\<close>

definition tableMap :: "table \<Rightarrow> (string \<times> handle option) list" where
  "tableMap t = (case mResizeHandlerIds t of None \<Rightarrow> [] | Some m \<Rightarrow> m)"

text \<open>
  The invariant of the registration: for every ID suffix the live listeners on its DOM
  region are exactly the handle stored under it; handles of live listeners are pairwise
  distinct and were issued before the current counter.
\<close>

definition rh_inv :: "resize_handler \<Rightarrow> (string \<times> handle option) list \<Rightarrow> bool" where
  "rh_inv rh m =
     ((\<forall>k. liveHandles rh k = (case lookupHandle m k of None \<Rightarrow> [] | Some h \<Rightarrow> [h]))
      \<and> distinct (map fst (aResizeListeners rh))
      \<and> (\<forall>l \<in> set (aResizeListeners rh). \<forall>n. fst l = Handle n \<longrightarrow> n < iIdCounter rh))"

section \<open>Scrolling: the cursor stays in bounds\<close>

text \<open>
  C3, as stated, fails: with more fixed rows than visible rows the page size
  \<open>visibleRowCount - fixedRowCount - fixedBottomRowCount\<close> is negative, and a page step
  down from a cursor in bounds moves the cursor below 0. Here: 10 rows, 2 visible rows,
  5 fixed rows, cursor 0; the page step down sets the cursor to -3.
\<close>

theorem scroll_negative_page_counterexample:
  "0 \<le> firstVisibleRow (exampleTable\<lparr>visibleRowCount := 2, fixedRowCount := 5\<rparr>)
   \<and> firstVisibleRow (exampleTable\<lparr>visibleRowCount := 2, fixedRowCount := 5\<rparr>)
       \<le> rowCount (exampleTable\<lparr>visibleRowCount := 2, fixedRowCount := 5\<rparr>)
          - visibleRowCount (exampleTable\<lparr>visibleRowCount := 2, fixedRowCount := 5\<rparr>)
   \<and> firstVisibleRow
        (snd (scroll firstVisibleRow
                (exampleTable\<lparr>visibleRowCount := 2, fixedRowCount := 5\<rparr>) True True)) = -3"
  by (simp add: scroll_def setFirstVisibleRow_def Let_def exampleTable_def)

text \<open>
  C3, amended: when the fixed top and bottom rows together do not exceed the visible
  rows, and the sanitized cursor the table reports is the stored cursor and lies in
  \<open>[0, rowCount - visibleRowCount]\<close>, then after a scroll step in either direction,
  single or page-wise, the cursor lies in \<open>[0, rowCount - visibleRowCount]\<close>.
\<close>

theorem scroll_cursor_in_bounds:
  assumes "0 \<le> getSanitizedFirstVisibleRow t"
    and "getSanitizedFirstVisibleRow t \<le> rowCount t - visibleRowCount t"
    and "firstVisibleRow t = getSanitizedFirstVisibleRow t"
    and "fixedRowCount t + fixedBottomRowCount t \<le> visibleRowCount t"
  shows "0 \<le> firstVisibleRow (snd (scroll getSanitizedFirstVisibleRow t bDown bPage))
       \<and> firstVisibleRow (snd (scroll getSanitizedFirstVisibleRow t bDown bPage))
           \<le> rowCount t - visibleRowCount t"
proof (cases bDown)
  case True
  with assms show ?thesis
    by (simp add: scroll_def setFirstVisibleRow_def Let_def)
next
  case False
  with assms show ?thesis
    by (simp add: scroll_def setFirstVisibleRow_def Let_def)
qed

theorem scroll_cursor_in_bounds_witness:
  "firstVisibleRow (snd (scroll firstVisibleRow exampleTable True True)) = 5
   \<and> 0 \<le> firstVisibleRow (snd (scroll firstVisibleRow exampleTable True True))
   \<and> firstVisibleRow (snd (scroll firstVisibleRow exampleTable True True))
       \<le> rowCount exampleTable - visibleRowCount exampleTable"
proof -
  have "firstVisibleRow (snd (scroll firstVisibleRow exampleTable True True)) = 5"
    by (simp add: scroll_def setFirstVisibleRow_def Let_def exampleTable_def)
  moreover have "0 \<le> firstVisibleRow (snd (scroll firstVisibleRow exampleTable True True))
     \<and> firstVisibleRow (snd (scroll firstVisibleRow exampleTable True True))
         \<le> rowCount exampleTable - visibleRowCount exampleTable"
    by (rule scroll_cursor_in_bounds) (simp_all add: exampleTable_def)
  ultimately show ?thesis by simp
qed

section \<open>Scrolling to the first or last page\<close>



section \<open>Row selection\<close>



text \<open>
  C5, as stated, fails: \<open>areAllRowsSelected\<close> does not read the selection mode. On a
  table in selection mode None with one selectable row whose index 0 is among the
  selected indices it returns true.
\<close>

theorem areAllRowsSelected_mode_none_counterexample:
  "selectionMode (exampleTable\<lparr>selectionMode := SelNone, selectableRowCount := 1,
                               selectedIndices := {0}\<rparr>) = SelNone
   \<and> areAllRowsSelected (Some (exampleTable\<lparr>selectionMode := SelNone, selectableRowCount := 1,
                                              selectedIndices := {0}\<rparr>))"
  by (simp add: areAllRowsSelected_def exampleTable_def)

text \<open>
  C5, amended: in selection mode None \<open>toggleRowSelection\<close> returns false for every
  indicator and forced state and leaves the table as it is, and \<open>areAllRowsSelected\<close>
  returns false when no index is selected.
\<close>

theorem selection_mode_none:
  assumes "selectionMode t = SelNone"
  shows "toggleRowSelection (Some t) oRowIndicator bSelect = Inr (False, Some t)
     \<and> (selectedIndices t = {} \<longrightarrow> \<not> areAllRowsSelected (Some t))"
  using assms by (simp add: toggleRowSelection_def areAllRowsSelected_def Let_def)

theorem selection_mode_none_witness:
  "toggleRowSelection (Some (exampleTable\<lparr>selectionMode := SelNone\<rparr>)) (IndNumber 3) None
     = Inr (False, Some (exampleTable\<lparr>selectionMode := SelNone\<rparr>))
   \<and> \<not> areAllRowsSelected (Some (exampleTable\<lparr>selectionMode := SelNone\<rparr>))"
  using selection_mode_none [of "exampleTable\<lparr>selectionMode := SelNone\<rparr>" "IndNumber 3" None]
  by (simp add: exampleTable_def)



text \<open>
  C10: with a numeric row index the selection behavior is not consulted. On a table with
  a row binding and a selection mode other than None, toggling an index in
  \<open>[0, rowCount)\<close> with no forced state flips the selection state of that index, whatever
  \<open>isRowSelectionAllowed\<close> and \<open>isRowSelectorSelectionAllowed\<close> say; the same table
  refuses a data cell when selection on the row body is not allowed, and a row header
  cell when selection by the row selector is not allowed.
\<close>

theorem toggleRowSelection_index_bypasses_behavior:
  assumes "selectionMode t \<noteq> SelNone" and "rowsBinding t" and "0 \<le> i" and "i < rowCount t"
  shows "toggleRowSelection (Some t) (IndNumber i) None
           = Inr (True, Some (t\<lparr>selectedIndices := toggled (selectedIndices t) i,
                                iSourceRowIndex := None\<rparr>))
     \<and> (\<not> isRowSelectionAllowed t \<and> fst (the (getCellInfo cell)) = DATACELL
          \<longrightarrow> toggleRowSelection (Some t) (IndElem cell) bSelect = Inr (False, Some t))
     \<and> (\<not> isRowSelectorSelectionAllowed t \<and> fst (the (getCellInfo cell)) = ROWHEADER
          \<longrightarrow> toggleRowSelection (Some t) (IndElem cell) bSelect = Inr (False, Some t))"
  using assms
  by (auto simp: toggleRowSelection_def setSelectionState_def isIndexSelected_def
      addSelectionInterval_def removeSelectionInterval_def Let_def toggled_def
      split: option.splits)

theorem toggleRowSelection_index_bypasses_behavior_witness:
  "\<not> isRowSelectionAllowed exampleTable
   \<and> toggleRowSelection (Some exampleTable) (IndNumber 3) None
       = Inr (True, Some (exampleTable\<lparr>selectedIndices := {3}\<rparr>))
   \<and> toggleRowSelection (Some exampleTable) (IndElem exampleDataCell) None
       = Inr (False, Some exampleTable)"
proof -
  have na: "\<not> isRowSelectionAllowed exampleTable"
    by (simp add: isRowSelectionAllowed_def exampleTable_def)
  have dc: "fst (the (getCellInfo exampleDataCell)) = DATACELL"
    by (simp add: getCellInfo_def hasClass_def exampleDataCell_def)
  have "selectionMode exampleTable \<noteq> SelNone" "rowsBinding exampleTable"
    "0 \<le> (3::int)" "3 < rowCount exampleTable"
    by (simp_all add: exampleTable_def)
  from toggleRowSelection_index_bypasses_behavior [OF this, of exampleDataCell None] na dc
  show ?thesis by (simp add: toggled_def exampleTable_def)
qed

section \<open>Column resize: widths\<close>

lemma resizeColumns_widths:
  "resizeColumns e h f cs pd sd perf t = (b, t') \<Longrightarrow>
     length (columns t') = length (columns t) \<and>
     (\<forall>j<length (columns t). width (columns t' ! j) = width (columns t ! j)
          \<or> atLeastPx (minColumnWidth e) (width (columns t' ! j)))"
proof (induction cs arbitrary: pd sd perf t)
  case Nil
  then show ?case by simp
next
  case (Cons c rest)
  define cw where "cw = toNumber (getColumnWidth (Some t) (Some (int c)))"
  define nw where "nw = (if cw + sd < minColumnWidth e then minColumnWidth e else cw + sd)"
  have nw_min: "minColumnWidth e \<le> nw" by (simp add: nw_def)
  from Cons.prems obtain pd' sd' perf' t'' where
    rec: "resizeColumns e h f rest pd' sd' perf' t'' = (b, t')"
    and mid: "columns t'' = columns t
        \<or> columns t'' = (columns t)[c := (columns t ! c)\<lparr>width := WPx nw\<rparr>]"
    by (auto simp: Let_def setWidth_def cw_def nw_def split: if_splits)
  from Cons.IH[OF rec] have
    len: "length (columns t') = length (columns t'')" and
    ih: "\<forall>j<length (columns t''). width (columns t' ! j) = width (columns t'' ! j)
          \<or> atLeastPx (minColumnWidth e) (width (columns t' ! j))"
    by auto
  from mid have len2: "length (columns t'') = length (columns t)" by auto
  have step: "\<forall>j<length (columns t). width (columns t'' ! j) = width (columns t ! j)
          \<or> atLeastPx (minColumnWidth e) (width (columns t'' ! j))"
    using mid nw_min
    by (cases "c < length (columns t)") (auto simp: nth_list_update atLeastPx_def)
  show ?case
  proof (intro conjI allI impI)
    show "length (columns t') = length (columns t)" using len len2 by simp
  next
    fix j assume j: "j < length (columns t)"
    with ih len2 have a: "width (columns t' ! j) = width (columns t'' ! j)
          \<or> atLeastPx (minColumnWidth e) (width (columns t' ! j))" by simp
    from step j have b: "width (columns t'' ! j) = width (columns t ! j)
          \<or> atLeastPx (minColumnWidth e) (width (columns t'' ! j))" by simp
    from a b show "width (columns t' ! j) = width (columns t ! j)
          \<or> atLeastPx (minColumnWidth e) (width (columns t' ! j))" by auto
  qed
qed

lemma pinColumn_width: "width (pinColumn e t r i c) = width c"
  by (simp add: pinColumn_def split: option.splits)

lemma pinMinWidths_widths: "map width (columns (pinMinWidths e t r)) = map width (columns t)"
  by (rule nth_equalityI) (simp_all add: pinMinWidths_def pinColumn_width)

lemma resizeColumn_cases:
  assumes "resizeColumn e h (Some t) i w f sp = (b, Some t')"
  obtains "t' = t" "b = False"
  | r pd sd where
      "resizeColumns e h (case f of None \<Rightarrow> True | Some x \<Rightarrow> x) r pd sd False t = (b, t')"
  | r pd sd where
      "resizeColumns e h (case f of None \<Rightarrow> True | Some x \<Rightarrow> x) r pd sd False
         (pinMinWidths e t r) = (b, t')"
  using assms
  by (auto simp: resizeColumn_def Let_def split: option.splits if_splits prod.splits)

text \<open>
  C7: whenever \<open>resizeColumn\<close> changes the width of a column, the new width is a pixel
  width of at least the minimum column width.
\<close>

theorem resizeColumn_respects_minimum:
  assumes "resizeColumn e fireColumnResize (Some t) iColumnIndex iWidth bFireEvent iColumnSpan
             = (b, Some t')"
    and "j < length (columns t)"
    and "width (columns t' ! j) \<noteq> width (columns t ! j)"
  shows "atLeastPx (minColumnWidth e) (width (columns t' ! j))"
  using assms(1)
proof (cases rule: resizeColumn_cases)
  case 1
  with assms(3) show ?thesis by simp
next
  case (2 r pd sd)
  from resizeColumns_widths[OF 2] assms(2,3) show ?thesis by auto
next
  case (3 r pd sd)
  have "width (columns (pinMinWidths e t r) ! j) = width (columns t ! j)"
    using assms(2) by (simp add: pinMinWidths_def pinColumn_width)
  moreover have "length (columns (pinMinWidths e t r)) = length (columns t)"
    by (simp add: pinMinWidths_def)
  ultimately show ?thesis using resizeColumns_widths[OF 3] assms(2,3) by auto
qed

theorem resizeColumn_respects_minimum_witness:
  "atLeastPx (minColumnWidth exampleEnv)
     (width (columns (exampleTable\<lparr>columns := [exampleColumn\<lparr>width := WPx 48\<rparr>, exampleColumn]\<rparr>) ! 0))"
proof -
  have "resizeColumn exampleEnv allowDefault (Some exampleTable) (Some 0) (Some 10) (Some False)
          None
        = (True, Some (exampleTable\<lparr>columns := [exampleColumn\<lparr>width := WPx 48\<rparr>, exampleColumn]\<rparr>))"
    by (simp add: resizeColumn_def Let_def toNumber_def getColumnWidth_def Math_round_div_def
        setWidth_def isFixedColumn_def pinMinWidths_def pinColumn_def isVariableWidth_def
        upt_rec exampleTable_def exampleColumn_def exampleEnv_def)
  from resizeColumn_respects_minimum [OF this, of 0]
  show ?thesis by (simp add: exampleTable_def exampleColumn_def)
qed

section \<open>Column resize: sharing one pixel between two columns\<close>

text \<open>
  C1, as stated, fails: on two resizable visible columns of 100 pixels each, a resize of
  the span of both to 201 pixels does not leave the second column at 100 pixels with one
  notification fired.
\<close>

theorem resizeColumn_two_columns_counterexample:
  "\<not> (map width (columns (the (snd (resizeColumn exampleEnv allowDefault (Some exampleTable)
                                        (Some 0) (Some 201) None (Some 2)))))
         = [WPx 101, WPx 100]
      \<and> length (fired (the (snd (resizeColumn exampleEnv allowDefault (Some exampleTable)
                                      (Some 0) (Some 201) None (Some 2))))) = 1)"
  by (simp add: resizeColumn_def Let_def toNumber_def getColumnWidth_def Math_round_div_def
      setWidth_def isFixedColumn_def pinMinWidths_def pinColumn_def upt_rec
      exampleTable_def exampleColumn_def exampleEnv_def allowDefault_def)

text \<open>
  C1, amended: on a table of exactly two resizable visible columns of 100 pixels each,
  with a minimum column width of at most 101 pixels, a resize of the span of both to 201
  pixels whose notifications are not cancelled gives each column the shared delta
  round(1/2) = 1: both columns become 101 pixels wide, two resize notifications are
  fired, one per column, and the call returns true. (The remaining delta is recomputed
  only after a column whose change was smaller than the shared delta.)
\<close>

theorem resizeColumn_two_columns:
  assumes "columns t = [c0, c1]" and "visible c0" and "visible c1"
    and "resizable c0" and "resizable c1"
    and "width c0 = WPx 100" and "width c1 = WPx 100"
    and "minColumnWidth e \<le> 101"
    and "fireColumnResize (ColumnResize 0 101)" and "fireColumnResize (ColumnResize 1 101)"
    and "bFireEvent \<noteq> Some False"
  shows "resizeColumn e fireColumnResize (Some t) (Some 0) (Some 201) bFireEvent (Some 2) =
    (True, Some (t\<lparr>columns := [c0\<lparr>width := WPx 101\<rparr>, c1\<lparr>width := WPx 101\<rparr>],
                   fired := fired t @ [ColumnResize 0 101, ColumnResize 1 101]\<rparr>))"
proof -
  have fe: "(case bFireEvent of None \<Rightarrow> True | Some b \<Rightarrow> b) = True"
    using assms(11) by (cases bFireEvent) auto
  have pin: "pinMinWidths e t [0, 1] = t"
    using assms(1) by (simp add: pinMinWidths_def pinColumn_def upt_rec)
  show ?thesis
    using assms(1-10) pin
    by (simp add: resizeColumn_def fe Let_def toNumber_def getColumnWidth_def
          Math_round_div_def setWidth_def isFixedColumn_def)
qed

theorem resizeColumn_two_columns_witness:
  "resizeColumn exampleEnv allowDefault (Some exampleTable) (Some 0) (Some 201) None (Some 2) =
    (True, Some (exampleTable\<lparr>columns := [exampleColumn\<lparr>width := WPx 101\<rparr>,
                                          exampleColumn\<lparr>width := WPx 101\<rparr>],
                   fired := [ColumnResize 0 101, ColumnResize 1 101]\<rparr>))"
  using resizeColumn_two_columns [of exampleTable exampleColumn exampleColumn exampleEnv
          allowDefault None]
  by (simp add: exampleTable_def exampleColumn_def exampleEnv_def allowDefault_def)

section \<open>Resize handler registration: one live handle per key\<close>

lemma lookupHandle_update:
  "lookupHandle (AList.update s v m) k = (if k = s then v else lookupHandle m k)"
  by (simp add: lookupHandle_def update_conv' split: option.splits)

lemma liveHandles_deregister:
  "liveHandles (ResizeHandler_deregister rh h) k = filter (\<lambda>x. x \<noteq> h) (liveHandles rh k)"
  by (simp add: liveHandles_def ResizeHandler_deregister_def filter_map o_def conj_commute)

lemma liveHandles_mem:
  "h \<in> set (liveHandles rh k) \<longleftrightarrow> (\<exists>d. (h, d) \<in> set (aResizeListeners rh) \<and> targetKey d = k)"
  by (force simp: liveHandles_def)

lemma rh_inv_deregister:
  assumes "rh_inv rh m" "lookupHandle m s = Some h"
  shows "rh_inv (ResizeHandler_deregister rh h) (AList.update s None m)"
proof -
  from assms have live: "\<And>k. liveHandles rh k = (case lookupHandle m k of None \<Rightarrow> [] | Some h \<Rightarrow> [h])"
    and dist: "distinct (map fst (aResizeListeners rh))"
    and fresh: "\<forall>l \<in> set (aResizeListeners rh). \<forall>n. fst l = Handle n \<longrightarrow> n < iIdCounter rh"
    by (auto simp: rh_inv_def)
  have other: "lookupHandle m k \<noteq> Some h" if "k \<noteq> s" for k
  proof
    assume a: "lookupHandle m k = Some h"
    from live[of k] a have "h \<in> set (liveHandles rh k)" by simp
    then obtain d1 where d1: "(h, d1) \<in> set (aResizeListeners rh)" "targetKey d1 = k"
      by (auto simp: liveHandles_mem)
    from live[of s] assms(2) have "h \<in> set (liveHandles rh s)" by simp
    then obtain d2 where d2: "(h, d2) \<in> set (aResizeListeners rh)" "targetKey d2 = s"
      by (auto simp: liveHandles_mem)
    from dist d1(1) d2(1) have "d1 = d2" by (rule eq_key_imp_eq_value)
    with d1(2) d2(2) that show False by simp
  qed
  have "liveHandles (ResizeHandler_deregister rh h) k =
        (case lookupHandle (AList.update s None m) k of None \<Rightarrow> [] | Some h \<Rightarrow> [h])" for k
  proof (cases "k = s")
    case True
    then show ?thesis using live[of s] assms(2)
      by (simp add: liveHandles_deregister lookupHandle_update)
  next
    case False
    then show ?thesis using live[of k] other[OF False]
      by (auto simp: liveHandles_deregister lookupHandle_update split: option.splits)
  qed
  moreover have "distinct (map fst (aResizeListeners (ResizeHandler_deregister rh h)))"
    using dist by (simp add: ResizeHandler_deregister_def distinct_map_filter)
  moreover have "\<forall>l \<in> set (aResizeListeners (ResizeHandler_deregister rh h)). \<forall>n. fst l = Handle n
       \<longrightarrow> n < iIdCounter (ResizeHandler_deregister rh h)"
    using fresh by (auto simp: ResizeHandler_deregister_def)
  ultimately show ?thesis by (simp add: rh_inv_def)
qed

lemma rh_inv_deregisterLoop:
  "rh_inv rh m \<Longrightarrow> deregisterLoop rh m ks = (rh', m') \<Longrightarrow> rh_inv rh' m'"
proof (induction ks arbitrary: rh m)
  case Nil
  then show ?case by simp
next
  case (Cons s rest)
  show ?case
  proof (cases "lookupHandle m s")
    case None
    with Cons show ?thesis by simp
  next
    case (Some h)
    with Cons.prems(2) have "deregisterLoop (ResizeHandler_deregister rh h) (AList.update s None m) rest = (rh', m')"
      by simp
    from Cons.IH[OF rh_inv_deregister[OF Cons.prems(1) Some] this] show ?thesis .
  qed
qed

lemma deregisterLoop_single:
  "deregisterLoop rh m [s] = (rh', m') \<Longrightarrow> lookupHandle m' s = None"
  by (cases "lookupHandle m s") (auto simp: lookupHandle_update)

lemma rh_inv_register:
  assumes "rh_inv rh m" "lookupHandle m s = None" "targetKey d = s"
    "ResizeHandler_register rh d = (h, rh')"
  shows "rh_inv rh' (AList.update s (Some h) m)"
proof -
  from assms have live: "\<And>k. liveHandles rh k = (case lookupHandle m k of None \<Rightarrow> [] | Some h \<Rightarrow> [h])"
    and dist: "distinct (map fst (aResizeListeners rh))"
    and fresh: "\<forall>l \<in> set (aResizeListeners rh). \<forall>n. fst l = Handle n \<longrightarrow> n < iIdCounter rh"
    by (auto simp: rh_inv_def)
  from assms(4) have h: "h = Handle (iIdCounter rh)"
    and rh': "rh' = rh\<lparr>aResizeListeners := aResizeListeners rh @ [(h, d)], iIdCounter := Suc (iIdCounter rh)\<rparr>"
    by (auto simp: ResizeHandler_register_def)
  have new: "h \<notin> fst ` set (aResizeListeners rh)"
    using fresh h by fastforce
  have "liveHandles rh' k = (case lookupHandle (AList.update s (Some h) m) k of None \<Rightarrow> [] | Some h \<Rightarrow> [h])" for k
    using live[of k] assms(2,3)
    by (auto simp: rh' liveHandles_def lookupHandle_update)
  moreover have "distinct (map fst (aResizeListeners rh'))"
    using dist new by (simp add: rh')
  moreover have "\<forall>l \<in> set (aResizeListeners rh'). \<forall>n. fst l = Handle n \<longrightarrow> n < iIdCounter rh'"
    using fresh h by (auto simp: rh')
  ultimately show ?thesis by (simp add: rh_inv_def)
qed

lemma rh_inv_deregisterResizeHandler:
  assumes "rh_inv rh (tableMap t)" "deregisterResizeHandler rh t v = Inr (rh', t')"
  shows "rh_inv rh' (tableMap t')"
  using assms
  by (auto simp: deregisterResizeHandler_def tableMap_def simp del: deregisterLoop.simps
      split: option.splits prod.splits js_value.splits
      dest: rh_inv_deregisterLoop)

lemma rh_inv_registerResizeHandler:
  assumes "rh_inv rh (tableMap t)" "registerResizeHandler rh t v fn bp = Inr (r, rh', t')"
  shows "rh_inv rh' (tableMap t')"
proof (cases v)
  case (VString s)
  show ?thesis
  proof (cases fn)
    case False
    with assms VString show ?thesis by (simp add: registerResizeHandler_def)
  next
    case True
    from assms(2) VString True obtain rh1 t1 where
      d: "deregisterResizeHandler rh t (VString s) = Inr (rh1, t1)"
      by (auto simp: registerResizeHandler_def split: sum.splits)
    have i1: "rh_inv rh1 (tableMap t1)" by (rule rh_inv_deregisterResizeHandler[OF assms(1) d])
    have none: "lookupHandle (tableMap t1) s = None"
      using d
      by (auto simp: deregisterResizeHandler_def tableMap_def lookupHandle_def
          simp del: deregisterLoop.simps
          split: option.splits prod.splits dest: deregisterLoop_single)
    define m1 where "m1 = tableMap t1"
    define od where "od =
      (case map_of (domSuffixes t1) s of
         None \<Rightarrow> None
       | Some hasParent \<Rightarrow>
           (if bp then (if hasParent then Some (ParentOf s) else None) else Some (Element s)))"
    have key: "targetKey dd = s" if "od = Some dd" for dd
      using that by (auto simp: od_def targetKey_def split: option.splits if_splits)
    from assms(2) have res:
      "(case od of
          None \<Rightarrow> Inr (lookupHandle m1 s, rh1, t1\<lparr>mResizeHandlerIds := Some m1\<rparr>)
        | Some dd \<Rightarrow>
            (case ResizeHandler_register rh1 dd of
               (h, rh2) \<Rightarrow>
                 Inr (Some h, rh2,
                      t1\<lparr>mResizeHandlerIds := Some (AList.update s (Some h) m1)\<rparr>)))
       = Inr (r, rh', t')"
      unfolding m1_def od_def tableMap_def
      using VString True d
      by (auto simp: registerResizeHandler_def Let_def split: option.splits if_splits prod.splits)
    show ?thesis
    proof (cases od)
      case None
      with res i1 show ?thesis by (auto simp: tableMap_def m1_def)
    next
      case (Some dd)
      obtain h rh2 where reg: "ResizeHandler_register rh1 dd = (h, rh2)"
        by (cases "ResizeHandler_register rh1 dd") auto
      with res Some have eq: "rh' = rh2" "t' = t1\<lparr>mResizeHandlerIds := Some (AList.update s (Some h) m1)\<rparr>"
        by auto
      from rh_inv_register[OF i1[folded m1_def] none[folded m1_def] key[OF Some] reg]
      show ?thesis using eq by (simp add: tableMap_def)
    qed
  qed
qed (use assms in \<open>auto simp: registerResizeHandler_def\<close>)

lemma rh_inv_step:
  assumes "rh_inv (fst st) (tableMap (snd st))"
  shows "rh_inv (fst (rh_step st c)) (tableMap (snd (rh_step st c)))"
proof (cases c)
  case (Register v fn bp)
  show ?thesis
  proof (cases "registerResizeHandler (fst st) (snd st) v fn bp")
    case (Inl e)
    with Register assms show ?thesis by (simp add: rh_step_def)
  next
    case (Inr x)
    obtain r rh' t' where x: "x = (r, rh', t')" by (cases x) auto
    from rh_inv_registerResizeHandler[OF assms Inr[unfolded x]] Register Inr x
    show ?thesis by (simp add: rh_step_def)
  qed
next
  case (Deregister v)
  show ?thesis
  proof (cases "deregisterResizeHandler (fst st) (snd st) v")
    case (Inl e)
    with Deregister assms show ?thesis by (simp add: rh_step_def)
  next
    case (Inr x)
    obtain rh' t' where x: "x = (rh', t')" by (cases x) auto
    from rh_inv_deregisterResizeHandler[OF assms Inr[unfolded x]] Deregister Inr x
    show ?thesis by (simp add: rh_step_def)
  qed
next
  case (Rerender d)
  with assms show ?thesis by (simp add: rh_step_def tableMap_def)
qed

lemma rh_inv_run:
  "rh_inv (fst st) (tableMap (snd st)) \<Longrightarrow>
   rh_inv (fst (rh_run st cs)) (tableMap (snd (rh_run st cs)))"
  unfolding rh_run_def
  by (induction cs arbitrary: st) (simp_all add: rh_inv_step)

lemma storedHandles_tableMap:
  "storedHandles t k = (case lookupHandle (tableMap t) k of None \<Rightarrow> [] | Some h \<Rightarrow> [h])"
  by (simp add: storedHandles_def tableMap_def lookupHandle_def split: option.splits)

lemma register_supersedes:
  assumes "rh_inv rh (tableMap t)" "storedHandles t s = [h]"
    "registerResizeHandler rh t (VString s) True bp = Inr (r, rh', t')"
  shows "h \<notin> fst ` set (aResizeListeners rh')"
proof -
  from assms(2) obtain m where m: "mResizeHandlerIds t = Some m" "lookupHandle m s = Some h"
    by (auto simp: storedHandles_def split: option.splits)
  from assms(1) m have live: "liveHandles rh s = [h]"
    by (simp add: rh_inv_def tableMap_def)
  then have "h \<in> set (liveHandles rh s)" by simp
  then have "h \<in> fst ` set (aResizeListeners rh)" by (auto simp: liveHandles_def)
  with assms(1) have lt: "\<forall>n. h = Handle n \<longrightarrow> n < iIdCounter rh"
    by (auto simp: rh_inv_def)
  have d: "deregisterResizeHandler rh t (VString s)
        = Inr (ResizeHandler_deregister rh h, t\<lparr>mResizeHandlerIds := Some (AList.update s None m)\<rparr>)"
    using m by (simp add: deregisterResizeHandler_def)
  have gone: "\<And>b. (h, b) \<notin> set (aResizeListeners (ResizeHandler_deregister rh h))"
    by (auto simp: ResizeHandler_deregister_def)
  have cnt: "iIdCounter (ResizeHandler_deregister rh h) = iIdCounter rh"
    by (simp add: ResizeHandler_deregister_def)
  from assms(3) d gone lt cnt show ?thesis
    by (auto simp: registerResizeHandler_def Let_def ResizeHandler_register_def
        split: option.splits if_splits)
qed

text \<open>
  C9: start from a table without registration map and a ResizeHandler without listeners.
  After every history of \<open>registerResizeHandler\<close> and \<open>deregisterResizeHandler\<close> calls
  (and re-renderings in between), for every ID suffix the live listeners on its DOM region
  are exactly the handle the map stores under it, so at most one; and a further
  registration for a suffix that holds a handle leaves that handle without a live
  listener.
\<close>

theorem resize_handler_one_per_key:
  assumes "aResizeListeners rh = []" and "mResizeHandlerIds t = None"
  shows "liveHandles (fst (rh_run (rh, t) calls)) sIdSuffix
           = storedHandles (snd (rh_run (rh, t) calls)) sIdSuffix
     \<and> length (liveHandles (fst (rh_run (rh, t) calls)) sIdSuffix) \<le> 1
     \<and> (storedHandles (snd (rh_run (rh, t) calls)) s = [h]
          \<and> registerResizeHandler (fst (rh_run (rh, t) calls)) (snd (rh_run (rh, t) calls))
               (VString s) True bRegisterParent = Inr (r, rh', t')
          \<longrightarrow> h \<notin> fst ` set (aResizeListeners rh'))"
proof -
  have "rh_inv (fst (rh, t)) (tableMap (snd (rh, t)))"
    using assms by (simp add: rh_inv_def tableMap_def liveHandles_def lookupHandle_def)
  from rh_inv_run[OF this, of calls]
  have inv: "rh_inv (fst (rh_run (rh, t) calls)) (tableMap (snd (rh_run (rh, t) calls)))" .
  then have eq: "liveHandles (fst (rh_run (rh, t) calls)) sIdSuffix
           = storedHandles (snd (rh_run (rh, t) calls)) sIdSuffix"
    by (simp add: rh_inv_def storedHandles_tableMap)
  then have "length (liveHandles (fst (rh_run (rh, t) calls)) sIdSuffix) \<le> 1"
    by (simp add: storedHandles_def split: option.splits)
  with eq register_supersedes[OF inv] show ?thesis by blast
qed

theorem resize_handler_one_per_key_witness:
  "liveHandles
     (fst (rh_run (exampleResizeHandler, exampleTable)
             [Register (VString ''sapUiTableCnt'') True False,
              Register (VString ''sapUiTableCnt'') True True])) ''sapUiTableCnt'' = [Handle 1]
   \<and> storedHandles
     (snd (rh_run (exampleResizeHandler, exampleTable)
             [Register (VString ''sapUiTableCnt'') True False,
              Register (VString ''sapUiTableCnt'') True True])) ''sapUiTableCnt'' = [Handle 1]"
proof -
  have live: "liveHandles
     (fst (rh_run (exampleResizeHandler, exampleTable)
             [Register (VString ''sapUiTableCnt'') True False,
              Register (VString ''sapUiTableCnt'') True True])) ''sapUiTableCnt'' = [Handle 1]"
    by (simp add: rh_run_def rh_step_def registerResizeHandler_def deregisterResizeHandler_def
        ResizeHandler_register_def ResizeHandler_deregister_def lookupHandle_def
        liveHandles_def targetKey_def exampleTable_def exampleResizeHandler_def Let_def)
  have "aResizeListeners exampleResizeHandler = []" "mResizeHandlerIds exampleTable = None"
    by (simp_all add: exampleResizeHandler_def exampleTable_def)
  from resize_handler_one_per_key [OF this,
      of "[Register (VString ''sapUiTableCnt'') True False,
           Register (VString ''sapUiTableCnt'') True True]" "''sapUiTableCnt''"]
    live
  show ?thesis by simp
qed

section \<open>Prevented notifications\<close>

lemma resizeColumns_prevented:
  "resizeColumns e (\<lambda>ev. False) True cs pd sd perf t = (b, t') \<Longrightarrow>
     b = perf \<and> t'\<lparr>fired := fired t\<rparr> = t"
proof (induction cs arbitrary: pd sd perf t)
  case Nil
  then show ?case by auto
next
  case (Cons c rest)
  from Cons.prems obtain pd' sd' t1 where
    rec: "resizeColumns e (\<lambda>ev. False) True rest pd' sd' perf t1 = (b, t')"
    and t1: "t1\<lparr>fired := fired t\<rparr> = t"
    by (auto simp: Let_def split: if_splits)
  from Cons.IH[OF rec] have b: "b = perf" and eq: "t'\<lparr>fired := fired t1\<rparr> = t1"
    by auto
  have "t'\<lparr>fired := fired t\<rparr> = (t'\<lparr>fired := fired t1\<rparr>)\<lparr>fired := fired t\<rparr>" by simp
  also have "\<dots> = t" using eq t1 by simp
  finally show ?case using b by simp
qed

lemma pinColumn_menuOpen: "menuOpen (pinColumn e t r i c) = menuOpen c"
  by (simp add: pinColumn_def split: option.splits)

lemma wsm_pinMinWidths: "widthsSelectionMenus (pinMinWidths e t r) = widthsSelectionMenus t"
proof -
  have "map width (columns (pinMinWidths e t r)) = map width (columns t)"
    by (rule nth_equalityI) (simp_all add: pinMinWidths_def pinColumn_width)
  moreover have "map menuOpen (columns (pinMinWidths e t r)) = map menuOpen (columns t)"
    by (rule nth_equalityI) (simp_all add: pinMinWidths_def pinColumn_menuOpen)
  ultimately show ?thesis by (simp add: widthsSelectionMenus_def pinMinWidths_def)
qed

lemma wsm_fired: "t'\<lparr>fired := x\<rparr> = t \<Longrightarrow> widthsSelectionMenus t' = widthsSelectionMenus t"
  by (auto simp: widthsSelectionMenus_def)

lemma resizeColumn_Some: "\<exists>b t'. resizeColumn e h (Some t) i w f sp = (b, Some t')"
  by (auto simp: resizeColumn_def Let_def split: option.splits if_splits prod.splits)

lemma resizeColumn_prevented:
  assumes "\<forall>ev. \<not> h ev" "f \<noteq> Some False"
    "resizeColumn e h (Some t) i w f sp = (b, Some t')"
  shows "b = False \<and> widthsSelectionMenus t' = widthsSelectionMenus t"
proof -
  have h: "h = (\<lambda>ev. False)" using assms(1) by auto
  have f: "(case f of None \<Rightarrow> True | Some x \<Rightarrow> x) = True" using assms(2) by (cases f) auto
  from assms(3) show ?thesis
  proof (cases rule: resizeColumn_cases)
    case 1
    then show ?thesis by simp
  next
    case (2 r pd sd)
    from resizeColumns_prevented[OF 2[unfolded h f]] show ?thesis
      by (auto dest: wsm_fired)
  next
    case (3 r pd sd)
    from resizeColumns_prevented[OF 3[unfolded h f]] show ?thesis
      by (auto dest: wsm_fired simp: wsm_pinMinWidths)
  qed
qed

lemma columnAt_Inr: "columnAt t n = Some (Inr i) \<Longrightarrow> i < length (columns t)"
  by (auto simp: columnAt_def split: option.splits js_num.splits if_splits)

lemma wsm_updateColumn:
  assumes "i < length (columns t)"
    "width (f (columns t ! i)) = width (columns t ! i)"
    "menuOpen (f (columns t ! i)) = menuOpen (columns t ! i)"
  shows "widthsSelectionMenus (updateColumn t i f) = widthsSelectionMenus t"
  using assms
  by (simp add: widthsSelectionMenus_def updateColumn_def map_update list_update_same_conv)

lemma wsm_remove:
  "removeColumnHeaderCellMenu t n = Inr t' \<Longrightarrow> widthsSelectionMenus t' = widthsSelectionMenus t"
  by (auto simp: removeColumnHeaderCellMenu_def wsm_updateColumn
      split: option.splits sum.splits if_splits dest: columnAt_Inr)

lemma wsm_apply:
  "applyColumnHeaderCellMenu t n = Inr t' \<Longrightarrow> widthsSelectionMenus t' = widthsSelectionMenus t"
  by (auto simp: applyColumnHeaderCellMenu_def Let_def wsm_updateColumn
      split: option.splits sum.splits if_splits dest: columnAt_Inr)

lemma wsm_fired_upd: "widthsSelectionMenus (t\<lparr>fired := x\<rparr>) = widthsSelectionMenus t"
  by (simp add: widthsSelectionMenus_def)

lemma openContextMenu_prevented:
  assumes "\<forall>ev. \<not> h ev" "f \<noteq> Some False"
    "openContextMenu e h (Some t) el hov f = Inr (Some t')"
  shows "widthsSelectionMenus t' = widthsSelectionMenus t"
proof -
  have h: "h = (\<lambda>ev. False)" using assms(1) by auto
  have f: "(case f of None \<Rightarrow> True | Some x \<Rightarrow> x) = True" using assms(2) by (cases f) auto
  from assms(3) show ?thesis
    unfolding openContextMenu_def h
    by (auto simp: f Let_def wsm_fired_upd
        split: option.splits sum.splits CELLTYPES.splits prod.splits if_splits js_num.splits
        dest: wsm_remove wsm_apply)
qed

text \<open>
  C2, as stated, fails: a call whose notification is cancelled can have effects besides
  the notification. \<open>resizeColumn\<close> pins the rendered width of every flexible column
  outside the resized span as its minimum width before it fires the resize notification:
  resizing the first column of a rendered table whose second column has the width
  \<^verbatim>\<open>auto\<close>, with a handler that prevents the default, returns false and has set the
  \<^verbatim>\<open>_minWidth\<close> of the second column. \<open>openContextMenu\<close> removes the cell menu of a
  column header before it fires the column select notification.
\<close>

theorem prevented_default_counterexample:
  "fst (resizeColumn exampleEnv preventDefault (Some exampleTableAuto) (Some 0) (Some 150)
          None None) = False
   \<and> minWidth (columns exampleTableAuto ! 1) = None
   \<and> minWidth (columns (the (snd (resizeColumn exampleEnv preventDefault
                                     (Some exampleTableAuto) (Some 0) (Some 150) None None))) ! 1)
       = Some 100
   \<and> cellMenu (columns exampleTableCellMenu ! 0)
   \<and> openContextMenu exampleEnv preventDefault (Some exampleTableCellMenu)
        (Some exampleHeaderCell) None None
       = Inr (Some (exampleTable\<lparr>fired := [ColumnSelect (Some 0)]\<rparr>))
   \<and> \<not> cellMenu (columns (exampleTable\<lparr>fired := [ColumnSelect (Some 0)]\<rparr>) ! 0)"
proof -
  have a: "resizeColumn exampleEnv preventDefault (Some exampleTableAuto) (Some 0) (Some 150)
             None None
           = (False, Some (exampleTable\<lparr>columns := [exampleColumn,
                  exampleColumn\<lparr>width := WAuto, minWidth := Some 100\<rparr>],
                fired := [ColumnResize 0 150]\<rparr>))"
    by (simp add: resizeColumn_def Let_def toNumber_def getColumnWidth_def Math_round_div_def
        setWidth_def isFixedColumn_def pinMinWidths_def pinColumn_def isVariableWidth_def
        upt_rec exampleTableAuto_def exampleTable_def exampleColumn_def exampleEnv_def
        preventDefault_def)
  have b: "openContextMenu exampleEnv preventDefault (Some exampleTableCellMenu)
        (Some exampleHeaderCell) None None
       = Inr (Some (exampleTable\<lparr>fired := [ColumnSelect (Some 0)]\<rparr>))"
    by (simp add: openContextMenu_def getCell_def closestClass_def getCellInfo_def hasClass_def
        getColumnHeaderCellInfo_def removeColumnHeaderCellMenu_def columnAt_def
        updateColumn_def visibleColumnAt_def getVisibleColumns_def upt_rec Let_def
        exampleTableCellMenu_def exampleTable_def exampleColumn_def exampleEnv_def
        exampleHeaderCell_def preventDefault_def)
  show ?thesis
    unfolding a b
    by (simp add: exampleTableAuto_def exampleTableCellMenu_def exampleTable_def
        exampleColumn_def)
qed

text \<open>
  C2, amended: when every notification is cancelled and firing is not switched off,
  \<open>resizeColumn\<close> returns false, and after \<open>resizeColumn\<close> and after \<open>openContextMenu\<close>
  the column widths, the selected indices, the open state of every column menu and the
  data cell context menu are as before the call. (The minimum widths pinned by
  \<open>resizeColumn\<close> and the column header cell menu removed or inserted by
  \<open>openContextMenu\<close> are not among these.)
\<close>

theorem prevented_default_keeps_widths_selection_menus:
  assumes "\<forall>ev. \<not> fireEvent ev" and "bFireEvent \<noteq> Some False"
  shows "fst (resizeColumn e fireEvent (Some t) iColumnIndex iWidth bFireEvent iColumnSpan)
           = False
     \<and> (\<exists>t'. snd (resizeColumn e fireEvent (Some t) iColumnIndex iWidth bFireEvent iColumnSpan)
                = Some t'
            \<and> widthsSelectionMenus t' = widthsSelectionMenus t)
     \<and> (\<forall>t'. openContextMenu e fireEvent (Some t) oElement bHoverFirstMenuItem bFireEvent
                = Inr (Some t')
            \<longrightarrow> widthsSelectionMenus t' = widthsSelectionMenus t)"
proof -
  obtain b t' where
    r: "resizeColumn e fireEvent (Some t) iColumnIndex iWidth bFireEvent iColumnSpan
          = (b, Some t')"
    using resizeColumn_Some by blast
  from resizeColumn_prevented[OF assms r] r openContextMenu_prevented[OF assms]
  show ?thesis by auto
qed

theorem prevented_default_keeps_widths_selection_menus_witness:
  "fst (resizeColumn exampleEnv preventDefault (Some exampleTableAuto) (Some 0) (Some 150)
          None None) = False
   \<and> widthsSelectionMenus
        (the (snd (resizeColumn exampleEnv preventDefault (Some exampleTableAuto) (Some 0)
                     (Some 150) None None)))
       = widthsSelectionMenus exampleTableAuto
   \<and> widthsSelectionMenus (exampleTable\<lparr>fired := [ColumnSelect (Some 0)]\<rparr>)
       = widthsSelectionMenus exampleTableCellMenu"
proof -
  have c: "\<forall>ev. \<not> preventDefault ev" by (simp add: preventDefault_def)
  have n: "(None :: bool option) \<noteq> Some False" by simp
  have b: "openContextMenu exampleEnv preventDefault (Some exampleTableCellMenu)
        (Some exampleHeaderCell) None None
       = Inr (Some (exampleTable\<lparr>fired := [ColumnSelect (Some 0)]\<rparr>))"
    by (simp add: openContextMenu_def getCell_def closestClass_def getCellInfo_def hasClass_def
        getColumnHeaderCellInfo_def removeColumnHeaderCellMenu_def columnAt_def
        updateColumn_def visibleColumnAt_def getVisibleColumns_def upt_rec Let_def
        exampleTableCellMenu_def exampleTable_def exampleColumn_def exampleEnv_def
        exampleHeaderCell_def preventDefault_def)
  from prevented_default_keeps_widths_selection_menus [OF c n,
      of exampleEnv exampleTableAuto "Some 0" "Some 150" None "Some exampleHeaderCell" None]
  have 1: "fst (resizeColumn exampleEnv preventDefault (Some exampleTableAuto) (Some 0)
                 (Some 150) None None) = False
     \<and> widthsSelectionMenus
        (the (snd (resizeColumn exampleEnv preventDefault (Some exampleTableAuto) (Some 0)
                     (Some 150) None None)))
       = widthsSelectionMenus exampleTableAuto"
    by auto
  from prevented_default_keeps_widths_selection_menus [OF c n,
      of exampleEnv exampleTableCellMenu "Some 0" "Some 150" None "Some exampleHeaderCell" None]
    b
  have 2: "widthsSelectionMenus (exampleTable\<lparr>fired := [ColumnSelect (Some 0)]\<rparr>)
       = widthsSelectionMenus exampleTableCellMenu"
    by auto
  from 1 2 show ?thesis by simp
qed

end
